theory Spec2Isabelle
  imports Complex_Main "HOL-Library.Multiset"
begin

section \<open>Link-budget estimation of pysim5g: a shallow embedding\<close>

text \<open>
  The development follows \<^verbatim>\<open>src/pysim5g/system_simulator.py\<close> (class
  \<^verbatim>\<open>SimulationManager\<close> and the entity classes) and the lookup table
  \<^verbatim>\<open>MODULATION_AND_CODING_LUT\<close> of \<^verbatim>\<open>scripts/run_script.py\<close>.

  Python floats are modelled by real numbers: comparisons, sums and products are the
  exact ones, \<^verbatim>\<open>10**x\<close> is \<open>10 powr x\<close> and \<^verbatim>\<open>np.log10\<close> is \<open>log 10\<close>.
  Rounding error, overflow and the values \<^verbatim>\<open>inf\<close> and \<^verbatim>\<open>nan\<close> are outside the model.
  A Python exception is the left summand of a result, and a function that falls off its
  end returns \<open>None\<close>.
\<close>

subsection \<open>Exceptions\<close>

datatype error =
    IndexError
  | ZeroDivisionError
  | TypeError
  | AttributeError
  | UnboundLocalError
  | PathLossError string

subsection \<open>The modulation and coding lookup table\<close>

text \<open>
  An entry is the 7-tuple (generation, MIMO, CQI index, modulation, coding rate,
  spectral efficiency, SINR estimate). The source reads the components 0, 5 and 6.
\<close>

type_synonym mcs_entry = "string \<times> string \<times> nat \<times> string \<times> nat \<times> real \<times> real"

definition entry_generation :: "mcs_entry \<Rightarrow> string" where
  "entry_generation e = fst e"

definition entry_spectral_efficiency :: "mcs_entry \<Rightarrow> real" where
  "entry_spectral_efficiency e = fst (snd (snd (snd (snd (snd e)))))"

definition entry_sinr :: "mcs_entry \<Rightarrow> real" where
  "entry_sinr e = snd (snd (snd (snd (snd (snd e)))))"

definition MODULATION_AND_CODING_LUT :: "mcs_entry list" where
  "MODULATION_AND_CODING_LUT =
    [(''4G'', ''1x1'', 1, ''QPSK'', 78, 0.1523, -6.7),
     (''4G'', ''1x1'', 2, ''QPSK'', 120, 0.2344, -4.7),
     (''4G'', ''1x1'', 3, ''QPSK'', 193, 0.377, -2.3),
     (''4G'', ''1x1'', 4, ''QPSK'', 308, 0.6016, 0.2),
     (''4G'', ''1x1'', 5, ''QPSK'', 449, 0.877, 2.4),
     (''4G'', ''1x1'', 6, ''QPSK'', 602, 1.1758, 4.3),
     (''4G'', ''1x1'', 7, ''16QAM'', 378, 1.4766, 5.9),
     (''4G'', ''1x1'', 8, ''16QAM'', 490, 1.9141, 8.1),
     (''4G'', ''1x1'', 9, ''16QAM'', 616, 2.4063, 10.3),
     (''4G'', ''1x1'', 10, ''64QAM'', 466, 2.7305, 11.7),
     (''4G'', ''1x1'', 11, ''64QAM'', 567, 3.3223, 14.1),
     (''4G'', ''1x1'', 12, ''64QAM'', 666, 3.9023, 16.3),
     (''4G'', ''1x1'', 13, ''64QAM'', 772, 4.5234, 18.7),
     (''4G'', ''1x1'', 14, ''64QAM'', 873, 5.1152, 21),
     (''4G'', ''1x1'', 15, ''64QAM'', 948, 5.5547, 22.7),
     (''5G'', ''8x8'', 1, ''QPSK'', 78, 0.30, -6.7),
     (''5G'', ''8x8'', 2, ''QPSK'', 193, 2.05, -4.7),
     (''5G'', ''8x8'', 3, ''QPSK'', 449, 4.42, -2.3),
     (''5G'', ''8x8'', 4, ''16QAM'', 378, 6.40, 0.2),
     (''5G'', ''8x8'', 5, ''16QAM'', 490, 8.00, 2.4),
     (''5G'', ''8x8'', 6, ''16QAM'', 616, 10.82, 4.3),
     (''5G'', ''8x8'', 7, ''64QAM'', 466, 12.40, 5.9),
     (''5G'', ''8x8'', 8, ''64QAM'', 567, 16.00, 8.1),
     (''5G'', ''8x8'', 9, ''64QAM'', 666, 19.00, 10.3),
     (''5G'', ''8x8'', 10, ''64QAM'', 772, 22.00, 11.7),
     (''5G'', ''8x8'', 11, ''64QAM'', 873, 28.00, 14.1),
     (''5G'', ''8x8'', 12, ''256QAM'', 711, 32.00, 16.3),
     (''5G'', ''8x8'', 13, ''256QAM'', 797, 38.00, 18.7),
     (''5G'', ''8x8'', 14, ''256QAM'', 885, 44.00, 21),
     (''5G'', ''8x8'', 15, ''256QAM'', 948, 50.00, 22.7)]"

text \<open>
  \<^verbatim>\<open>pairwise\<close>: the sliding window of 2-tuples, \<^verbatim>\<open>zip(a, b)\<close> with \<^verbatim>\<open>b\<close> one
  element ahead of \<^verbatim>\<open>a\<close>.
\<close>

definition pairwise :: "'a list \<Rightarrow> ('a \<times> 'a) list" where
  "pairwise iterable = zip iterable (tl iterable)"

subsection \<open>Spectral efficiency lookup\<close>

text \<open>
  The loop of \<^verbatim>\<open>estimate_spectral_efficiency\<close> over the pairs that are left.
  The guard \<^verbatim>\<open>lower[0] and upper[0] == generation\<close> is Python's
  \<^verbatim>\<open>lower[0] and (upper[0] == generation)\<close>: the lower tag only has to be a
  non-empty string. Inside a guarded pair the source reads the entries 14 and 29 of the
  table before it tests them (an \<^verbatim>\<open>IndexError\<close> on a shorter table), then entry 0.
  When the loop ends the function falls off its end: the result is \<^verbatim>\<open>None\<close>, and
  the initial value 0.1 of the local variable is never returned.
\<close>

fun spectral_efficiency_loop ::
  "real \<Rightarrow> string \<Rightarrow> mcs_entry list \<Rightarrow> (mcs_entry \<times> mcs_entry) list \<Rightarrow> error + real option"
where
  "spectral_efficiency_loop sinr generation lut [] = Inr None"
| "spectral_efficiency_loop sinr generation lut ((lower, upper) # pairs) =
    (if entry_generation lower \<noteq> [] \<and> entry_generation upper = generation then
       (let lower_sinr = entry_sinr lower; upper_sinr = entry_sinr upper in
        if sinr \<ge> lower_sinr \<and> sinr < upper_sinr then
          Inr (Some (entry_spectral_efficiency lower))
        else if length lut \<le> 14 then Inl IndexError
        else if length lut \<le> 29 then Inl IndexError
        else
          (let highest_value_4G = lut ! 14; highest_value_5G = lut ! 29 in
           if sinr \<ge> entry_sinr highest_value_4G \<and> generation = ''4G'' then
             Inr (Some (entry_spectral_efficiency highest_value_4G))
           else if sinr \<ge> entry_sinr highest_value_5G \<and> generation = ''5G'' then
             Inr (Some (entry_spectral_efficiency highest_value_5G))
           else
             (let lowest_value = lut ! 0 in
              if sinr < entry_sinr lowest_value then Inr (Some 0)
              else spectral_efficiency_loop sinr generation lut pairs)))
     else spectral_efficiency_loop sinr generation lut pairs)"

definition estimate_spectral_efficiency ::
  "real \<Rightarrow> string \<Rightarrow> mcs_entry list \<Rightarrow> error + real option"
where
  "estimate_spectral_efficiency sinr generation modulation_and_coding_lut =
     spectral_efficiency_loop sinr generation modulation_and_coding_lut
       (pairwise modulation_and_coding_lut)"

subsection \<open>Entities\<close>

text \<open>
  The keys of the \<^verbatim>\<open>simulation_parameters\<close> dict that the simulator reads.
\<close>

record simulation_parameters =
  iterations :: int
  seed_value1 :: int
  seed_value2 :: int
  los_breakpoint_m :: real
  tx_macro_baseline_height :: real
  tx_macro_power :: real
  tx_macro_gain :: real
  tx_macro_losses :: real
  tx_micro_baseline_height :: real
  tx_micro_power :: real
  tx_micro_gain :: real
  tx_micro_losses :: real
  building_height :: real
  street_width :: real
  above_roof :: int
  network_load :: real

text \<open>
  The geojson dicts handed to the constructors: the properties and the geometry that
  the classes read. The planar area of the site polygon is computed by the geometry
  library (\<^verbatim>\<open>shape(data['geometry']).area\<close>); the record carries that number.
\<close>

record site_data =
  site_id :: string
  site_coordinates :: "real \<times> real"

record receiver_data =
  ue_id :: string
  ue_coordinates :: "real \<times> real"
  ue_height_property :: real
  gain_property :: real
  losses_property :: real
  misc_losses_property :: real
  indoor_property :: bool

record site_area_data =
  area_site_id :: string
  area_coordinates :: "(real \<times> real) list"
  polygon_area :: real

text \<open>
  \<^verbatim>\<open>Transmitter\<close> and \<^verbatim>\<open>InterferingTransmitter\<close> objects have the same attributes.
  Height, power, gain and losses are assigned only under \<^verbatim>\<open>ant_type == 'macro'\<close> or
  \<^verbatim>\<open>ant_type == 'micro'\<close>; for any other antenna type the attribute does not exist
  (\<open>None\<close>) and reading it raises \<^verbatim>\<open>AttributeError\<close>.
\<close>

record transmitter_obj =
  tx_id :: string
  tx_coordinates :: "real \<times> real"
  ant_type :: string
  ant_height :: "real option"
  power :: "real option"
  gain :: "real option"
  losses :: "real option"

record receiver_obj =
  rx_id :: string
  rx_coordinates :: "real \<times> real"
  ue_height :: real
  rx_gain :: real
  rx_losses :: real
  misc_losses :: real
  indoor :: bool

record site_area_obj =
  sa_id :: string
  sa_coordinates :: "(real \<times> real) list"
  area :: real

definition Transmitter :: "site_data \<Rightarrow> string \<Rightarrow> simulation_parameters \<Rightarrow> transmitter_obj" where
  "Transmitter data antenna p =
    (let self0 = \<lparr>tx_id = site_id data, tx_coordinates = site_coordinates data,
                   ant_type = antenna, ant_height = None, power = None, gain = None,
                   losses = None\<rparr>;
         self1 = (if antenna = ''macro'' then
                    self0\<lparr>ant_height := Some (tx_macro_baseline_height p),
                          power := Some (tx_macro_power p),
                          gain := Some (tx_macro_gain p),
                          losses := Some (tx_macro_losses p)\<rparr>
                  else self0)
     in if antenna = ''micro'' then
          self1\<lparr>ant_height := Some (tx_micro_baseline_height p),
                power := Some (tx_micro_power p),
                gain := Some (tx_micro_gain p),
                losses := Some (tx_micro_losses p)\<rparr>
        else self1)"

definition InterferingTransmitter ::
  "site_data \<Rightarrow> string \<Rightarrow> simulation_parameters \<Rightarrow> transmitter_obj"
where
  "InterferingTransmitter data antenna p =
    (let self0 = \<lparr>tx_id = site_id data, tx_coordinates = site_coordinates data,
                   ant_type = antenna, ant_height = None, power = None, gain = None,
                   losses = None\<rparr>;
         self1 = (if antenna = ''macro'' then
                    self0\<lparr>ant_height := Some (tx_macro_baseline_height p),
                          power := Some (tx_macro_power p),
                          gain := Some (tx_macro_gain p),
                          losses := Some (tx_macro_losses p)\<rparr>
                  else self0)
     in if antenna = ''micro'' then
          self1\<lparr>ant_height := Some (tx_micro_baseline_height p),
                power := Some (tx_micro_power p),
                gain := Some (tx_micro_gain p),
                losses := Some (tx_micro_losses p)\<rparr>
        else self1)"

definition Receiver :: "receiver_data \<Rightarrow> simulation_parameters \<Rightarrow> receiver_obj" where
  "Receiver data p =
    \<lparr>rx_id = ue_id data, rx_coordinates = ue_coordinates data,
     ue_height = ue_height_property data, rx_gain = gain_property data,
     rx_losses = losses_property data, misc_losses = misc_losses_property data,
     indoor = indoor_property data\<rparr>"

definition SiteArea :: "site_area_data \<Rightarrow> site_area_obj" where
  "SiteArea data =
    \<lparr>sa_id = area_site_id data, sa_coordinates = area_coordinates data,
     area = polygon_area data\<rparr>"

subsection \<open>The manager\<close>

text \<open>
  A Python dict keeps its keys in insertion order, and assigning to a key that is
  already there replaces the value in place: an association list with \<open>dict_set\<close>.
\<close>

fun dict_set :: "'k \<Rightarrow> 'v \<Rightarrow> ('k \<times> 'v) list \<Rightarrow> ('k \<times> 'v) list" where
  "dict_set k v [] = [(k, v)]"
| "dict_set k v ((k', v') # kvs) =
     (if k' = k then (k, v) # kvs else (k', v') # dict_set k v kvs)"

definition dict_values :: "('k \<times> 'v) list \<Rightarrow> 'v list" where
  "dict_values d = map snd d"

record simulation_manager =
  transmitter :: transmitter_obj
  interfering_transmitters :: "(string \<times> transmitter_obj) list"
  receivers :: "(string \<times> receiver_obj) list"
  site_area :: site_area_obj

text \<open>
  \<^verbatim>\<open>SimulationManager.__init__\<close>. The serving transmitter is \<^verbatim>\<open>transmitter[0]\<close> and
  the site area \<^verbatim>\<open>site_area[0]\<close> (an \<^verbatim>\<open>IndexError\<close> on an empty list); every
  transmitter, serving or interfering, is built with the same antenna type and the same
  parameters.
\<close>

definition SimulationManager ::
  "site_data list \<Rightarrow> site_data list \<Rightarrow> string \<Rightarrow> receiver_data list \<Rightarrow>
   site_area_data list \<Rightarrow> simulation_parameters \<Rightarrow> error + simulation_manager"
where
  "SimulationManager transmitter_list interfering_list antenna receiver_list site_area_list p =
    (case transmitter_list of
       [] \<Rightarrow> Inl IndexError
     | t0 # _ \<Rightarrow>
        (case site_area_list of
           [] \<Rightarrow> Inl IndexError
         | a0 # _ \<Rightarrow>
            Inr \<lparr>transmitter = Transmitter t0 antenna p,
                 interfering_transmitters =
                   foldl (\<lambda>d it. dict_set (site_id it) (InterferingTransmitter it antenna p) d)
                     [] interfering_list,
                 receivers =
                   foldl (\<lambda>d r. dict_set (ue_id r) (Receiver r p) d) [] receiver_list,
                 site_area = SiteArea a0\<rparr>))"

subsection \<open>The path-loss collaborator\<close>

text \<open>
  \<^verbatim>\<open>path_loss_calculator\<close> lives in another module and is a parameter of the model:
  a function from its thirteen arguments to a path loss and a model name, or to the
  exception it raises.
\<close>

record path_loss_args =
  pl_frequency :: real
  pl_distance :: real
  pl_ant_height :: real
  pl_ant_type :: string
  pl_building_height :: real
  pl_street_width :: real
  pl_environment :: string
  pl_type_of_sight :: string
  pl_ue_height :: real
  pl_above_roof :: int
  pl_indoor :: bool
  pl_seed_value :: int
  pl_iterations :: int

type_synonym path_loss_calculator = "path_loss_args \<Rightarrow> error + (real \<times> string)"

text \<open>The length of the \<^verbatim>\<open>LineString\<close> between two points.\<close>

definition line_length :: "real \<times> real \<Rightarrow> real \<times> real \<Rightarrow> real" where
  "line_length a b = sqrt ((fst a - fst b)\<^sup>2 + (snd a - snd b)\<^sup>2)"

subsection \<open>Path loss to the serving transmitter\<close>

text \<open>
  The local \<^verbatim>\<open>strt_distance\<close> of \<^verbatim>\<open>estimate_path_loss\<close>: the length of the line
  from the receiver to the serving transmitter, replaced by 20 when it is below 20.
\<close>

definition strt_distance :: "simulation_manager \<Rightarrow> receiver_obj \<Rightarrow> real" where
  "strt_distance self receiver =
    (let temp_line_length =
           line_length (rx_coordinates receiver) (tx_coordinates (transmitter self))
     in if temp_line_length < 20 then 20 else temp_line_length)"

text \<open>The argument list of the call of \<^verbatim>\<open>path_loss_calculator\<close> in \<^verbatim>\<open>estimate_path_loss\<close>.\<close>

definition path_loss_call_args ::
  "simulation_manager \<Rightarrow> receiver_obj \<Rightarrow> real \<Rightarrow> string \<Rightarrow> simulation_parameters \<Rightarrow> real \<Rightarrow>
   path_loss_args"
where
  "path_loss_call_args self receiver frequency environment p height =
    \<lparr>pl_frequency = frequency, pl_distance = strt_distance self receiver,
     pl_ant_height = height, pl_ant_type = ant_type (transmitter self),
     pl_building_height = building_height p, pl_street_width = street_width p,
     pl_environment = environment,
     pl_type_of_sight =
       (if strt_distance self receiver < los_breakpoint_m p then ''los'' else ''nlos''),
     pl_ue_height = ue_height receiver, pl_above_roof = above_roof p,
     pl_indoor = indoor receiver, pl_seed_value = seed_value1 p,
     pl_iterations = iterations p\<rparr>"


subsection \<open>Received power\<close>

text \<open>
  The EIRP is read from \<^verbatim>\<open>self.transmitter\<close>; the parameter \<^verbatim>\<open>transmitter\<close> is
  not used by the body.
\<close>

definition estimate_received_power ::
  "simulation_manager \<Rightarrow> transmitter_obj \<Rightarrow> receiver_obj \<Rightarrow> real \<Rightarrow> error + real"
where
  "estimate_received_power self transmitter_arg receiver path_loss =
    (case power (transmitter self) of
       None \<Rightarrow> Inl AttributeError
     | Some tx_power \<Rightarrow>
        (case gain (transmitter self) of
           None \<Rightarrow> Inl AttributeError
         | Some tx_gain \<Rightarrow>
            (case losses (transmitter self) of
               None \<Rightarrow> Inl AttributeError
             | Some tx_losses \<Rightarrow>
                (let eirp = tx_power + tx_gain - tx_losses
                 in Inr (eirp - path_loss - misc_losses receiver + rx_gain receiver
                           - rx_losses receiver)))))"

subsection \<open>Interference from the other sites\<close>

text \<open>
  The local \<^verbatim>\<open>interference_strt_distance\<close> of the loop in
  \<^verbatim>\<open>estimate_interference\<close>. Under \<^verbatim>\<open>interference_strt_distance < 20\<close> the source
  evaluates the comparison \<^verbatim>\<open>interference_strt_distance == 20\<close> and drops its value:
  the distance stays as measured.
\<close>

definition interference_strt_distance :: "receiver_obj \<Rightarrow> transmitter_obj \<Rightarrow> real" where
  "interference_strt_distance receiver interfering_transmitter =
    (let temp_line_length =
           line_length (rx_coordinates receiver) (tx_coordinates interfering_transmitter)
     in if temp_line_length < 20 then temp_line_length else temp_line_length)"

text \<open>The argument list of the call of \<^verbatim>\<open>path_loss_calculator\<close> in the loop.\<close>

definition interference_call_args ::
  "receiver_obj \<Rightarrow> real \<Rightarrow> string \<Rightarrow> simulation_parameters \<Rightarrow> transmitter_obj \<Rightarrow> real \<Rightarrow>
   path_loss_args"
where
  "interference_call_args receiver frequency environment p interfering_transmitter height =
    \<lparr>pl_frequency = frequency,
     pl_distance = interference_strt_distance receiver interfering_transmitter,
     pl_ant_height = height, pl_ant_type = ant_type interfering_transmitter,
     pl_building_height = building_height p, pl_street_width = street_width p,
     pl_environment = environment,
     pl_type_of_sight =
       (if interference_strt_distance receiver interfering_transmitter < los_breakpoint_m p
        then ''los'' else ''nlos''),
     pl_ue_height = ue_height receiver, pl_above_roof = above_roof p,
     pl_indoor = indoor receiver, pl_seed_value = seed_value2 p,
     pl_iterations = iterations p\<rparr>"

text \<open>
  The body of the loop over \<^verbatim>\<open>self.interfering_transmitters.values()\<close>, with the
  locals \<^verbatim>\<open>interference\<close>, \<^verbatim>\<open>model\<close>, \<^verbatim>\<open>ave_distance\<close> and \<^verbatim>\<open>ave_pl\<close> as the
  accumulator (\<^verbatim>\<open>model\<close> is unbound before the first iteration).
\<close>

fun estimate_interference_loop ::
  "path_loss_calculator \<Rightarrow> simulation_manager \<Rightarrow> receiver_obj \<Rightarrow> real \<Rightarrow> string \<Rightarrow>
   simulation_parameters \<Rightarrow> transmitter_obj list \<Rightarrow>
   real list \<times> string option \<times> real \<times> real \<Rightarrow>
   error + (real list \<times> string option \<times> real \<times> real)"
where
  "estimate_interference_loop plc self receiver frequency environment p [] acc = Inr acc"
| "estimate_interference_loop plc self receiver frequency environment p
     (interfering_transmitter # rest) (interference, model, ave_distance, ave_pl) =
    (case ant_height interfering_transmitter of
       None \<Rightarrow> Inl AttributeError
     | Some height \<Rightarrow>
        (case plc (interference_call_args receiver frequency environment p
                     interfering_transmitter height) of
           Inl e \<Rightarrow> Inl e
         | Inr (path_loss, model') \<Rightarrow>
            (case estimate_received_power self interfering_transmitter receiver path_loss of
               Inl e \<Rightarrow> Inl e
             | Inr received_interference \<Rightarrow>
                 estimate_interference_loop plc self receiver frequency environment p rest
                   (interference @ [received_interference], Some model',
                    ave_distance + interference_strt_distance receiver interfering_transmitter,
                    ave_pl + path_loss))))"

text \<open>
  After the loop both sums are divided by the number of interfering transmitters, a
  \<^verbatim>\<open>ZeroDivisionError\<close> when there is none (the integer 0 divided by the integer 0).
\<close>

definition estimate_interference ::
  "path_loss_calculator \<Rightarrow> simulation_manager \<Rightarrow> receiver_obj \<Rightarrow> real \<Rightarrow> string \<Rightarrow>
   simulation_parameters \<Rightarrow> error + (real list \<times> string \<times> real \<times> real)"
where
  "estimate_interference plc self receiver frequency environment p =
    (case estimate_interference_loop plc self receiver frequency environment p
            (dict_values (interfering_transmitters self)) ([], None, 0, 0) of
       Inl e \<Rightarrow> Inl e
     | Inr (interference, model, ave_distance, ave_pl) \<Rightarrow>
        (if length (dict_values (interfering_transmitters self)) = 0 then Inl ZeroDivisionError
         else
           (case model of
              None \<Rightarrow> Inl UnboundLocalError
            | Some model' \<Rightarrow>
                Inr (interference, model',
                     ave_distance / real (length (dict_values (interfering_transmitters self))),
                     ave_pl / real (length (dict_values (interfering_transmitters self)))))))"

subsection \<open>Noise\<close>

definition estimate_noise :: "real \<Rightarrow> real" where
  "estimate_noise bandwidth =
    (let k = 1.38 / 10 ^ 23;
         t = 290;
         BW = bandwidth * 1000000
     in 10 * log 10 (k * t * 1000) + 1.5 + 10 * log 10 BW)"

subsection \<open>SINR\<close>

text \<open>
  Python's \<^verbatim>\<open>round(x, 2)\<close> on reals: the nearest multiple of 1/100, a tie going to
  the even one.
\<close>

definition round_half_even :: "real \<Rightarrow> int" where
  "round_half_even y =
    (let f = \<lfloor>y\<rfloor> in
     if y - of_int f < 1 / 2 then f
     else if y - of_int f > 1 / 2 then f + 1
     else if even f then f else f + 1)"

definition round2 :: "real \<Rightarrow> real" where
  "round2 x = of_int (round_half_even (x * 100)) / 100"

text \<open>The loop that fills \<^verbatim>\<open>interference_list\<close> with \<^verbatim>\<open>10**value\<close>.\<close>

fun interference_list_loop :: "real list \<Rightarrow> real list \<Rightarrow> real list" where
  "interference_list_loop [] interference_list = interference_list"
| "interference_list_loop (v # rest) interference_list =
     interference_list_loop rest (interference_list @ [10 powr v])"

text \<open>
  \<^verbatim>\<open>interference_list.sort(reverse=True)\<close> is \<open>rev (sort xs)\<close> (equal reals cannot be
  told apart, so stability is not visible) and \<^verbatim>\<open>[:3]\<close> is \<open>take 3\<close>. The quotient
  and the logarithm are those of the reals; they are the source's where
  \<^verbatim>\<open>i_plus_n\<close> is positive, which it is for every non-negative network load.
\<close>

definition estimate_sinr ::
  "real \<Rightarrow> real list \<Rightarrow> real \<Rightarrow> simulation_parameters \<Rightarrow> real \<times> real \<times> real \<times> real \<times> real"
where
  "estimate_sinr received_power interference noise p =
    (let raw_received_power = 10 powr received_power;
         interference_list = interference_list_loop interference [];
         interference_list = rev (sort interference_list);
         interference_list = take 3 interference_list;
         load = network_load p;
         i_summed = sum_list interference_list;
         raw_sum_of_interference = i_summed * (load / 100);
         raw_noise = 10 powr noise;
         i_plus_n = raw_sum_of_interference + raw_noise;
         sinr = round2 (log 10 (raw_received_power / i_plus_n))
     in (received_power, raw_sum_of_interference, noise, i_plus_n, sinr))"

subsection \<open>Capacity\<close>


subsection \<open>The link budget of every receiver\<close>




subsection \<open>The shipped parameters\<close>

text \<open>The dict \<^verbatim>\<open>PARAMETERS\<close> of \<^verbatim>\<open>scripts/run_script.py\<close>.\<close>

definition PARAMETERS :: simulation_parameters where
  "PARAMETERS =
    \<lparr>iterations = 1000, seed_value1 = 1, seed_value2 = 2, los_breakpoint_m = 500,
     tx_macro_baseline_height = 30, tx_macro_power = 40, tx_macro_gain = 16,
     tx_macro_losses = 1, tx_micro_baseline_height = 10, tx_micro_power = 24,
     tx_micro_gain = 5, tx_micro_losses = 1, building_height = 5, street_width = 20,
     above_roof = 0, network_load = 50\<rparr>"

subsection \<open>Concrete inputs\<close>

text \<open>
  Inputs for the evaluations below: a collaborator that returns the distance it is
  given as the path loss (so that the distance shows in the result), a site 100 m from
  the origin, a receiver at the origin with the shipped receiver properties, and a site
  area of one square kilometre.
\<close>

abbreviation distance_probe :: path_loss_calculator where
  "distance_probe \<equiv> (\<lambda>args. Inr (pl_distance args, ''probe''))"

abbreviation example_site :: site_data where
  "example_site \<equiv> \<lparr>site_id = ''HCMUT Tower'', site_coordinates = (60, 80)\<rparr>"

abbreviation example_receiver :: receiver_data where
  "example_receiver \<equiv>
     \<lparr>ue_id = ''id_0'', ue_coordinates = (0, 0), ue_height_property = 1.5,
      gain_property = 4, losses_property = 4, misc_losses_property = 4,
      indoor_property = False\<rparr>"

abbreviation example_site_area :: site_area_data where
  "example_site_area \<equiv>
     \<lparr>area_site_id = ''HCMUT Tower'',
      area_coordinates = [(-500, -500), (500, -500), (500, 500), (-500, 500)],
      polygon_area = 1000000\<rparr>"

text \<open>
  The manager that the constructor builds from \<open>example_site\<close>, two interfering
  sites 50 m and 100 m from the receiver, and \<open>example_receiver\<close>.
\<close>

abbreviation example_manager :: simulation_manager where
  "example_manager \<equiv>
     \<lparr>transmitter = Transmitter example_site ''micro'' PARAMETERS,
      interfering_transmitters =
        [(''site_1'', InterferingTransmitter
                        \<lparr>site_id = ''site_1'', site_coordinates = (30, 40)\<rparr> ''micro'' PARAMETERS),
         (''site_2'', InterferingTransmitter
                        \<lparr>site_id = ''site_2'', site_coordinates = (0, 100)\<rparr> ''micro'' PARAMETERS)],
      receivers = [(''id_0'', Receiver example_receiver PARAMETERS)],
      site_area = SiteArea example_site_area\<rparr>"

section \<open>The spectral efficiency lookup on the shipped table\<close>

lemmas lut_simps = estimate_spectral_efficiency_def MODULATION_AND_CODING_LUT_def pairwise_def
  entry_generation_def entry_sinr_def entry_spectral_efficiency_def

text \<open>
  Running the loop on the shipped table with a symbolic SINR gives one step function
  per generation. For 5G the first guarded pair is the one that straddles the two
  blocks (entry 14 with entry 15): its interval is empty, and the saturation and floor
  tests that follow it settle every SINR outside the table's range.
\<close>

lemma spectral_efficiency_5G:
  "estimate_spectral_efficiency s ''5G'' MODULATION_AND_CODING_LUT = Inr (Some (
     if s \<ge> 22.7 then 50 else if s < -6.7 then 0 else if s < -4.7 then 0.30
     else if s < -2.3 then 2.05 else if s < 0.2 then 4.42 else if s < 2.4 then 6.40
     else if s < 4.3 then 8 else if s < 5.9 then 10.82 else if s < 8.1 then 12.40
     else if s < 10.3 then 16 else if s < 11.7 then 19 else if s < 14.1 then 22
     else if s < 16.3 then 28 else if s < 18.7 then 32 else if s < 21 then 38 else 44))"
  by (simp add: lut_simps)

lemma spectral_efficiency_4G:
  "estimate_spectral_efficiency s ''4G'' MODULATION_AND_CODING_LUT = Inr (Some (
     if s \<ge> 22.7 then 5.5547 else if s < -6.7 then 0 else if s < -4.7 then 0.1523
     else if s < -2.3 then 0.2344 else if s < 0.2 then 0.377 else if s < 2.4 then 0.6016
     else if s < 4.3 then 0.877 else if s < 5.9 then 1.1758 else if s < 8.1 then 1.4766
     else if s < 10.3 then 1.9141 else if s < 11.7 then 2.4063 else if s < 14.1 then 2.7305
     else if s < 16.3 then 3.3223 else if s < 18.7 then 3.9023 else if s < 21 then 4.5234
     else 5.1152))"
  by (simp add: lut_simps)

lemma shipped_generations:
  "g \<in> set (map entry_generation MODULATION_AND_CODING_LUT) \<longleftrightarrow> g = ''4G'' \<or> g = ''5G''"
  by (auto simp: MODULATION_AND_CODING_LUT_def entry_generation_def)

text \<open>
  Claim C1. For every SINR \<open>s\<close> and every generation \<open>g\<close> of the shipped table, with
  \<open>g\<close>'s block the entries tagged \<open>g\<close>: for a consecutive pair (lower, upper) of the
  block with lower threshold \<open>\<le> s <\<close> upper threshold the lookup returns the lower
  entry's spectral efficiency; at or above the block's largest threshold it returns the
  spectral efficiency of the entry that has it; below every threshold of the block it
  returns 0. With \<open>g\<close> = 5G: 0.0 gives 4.42, 100 gives 50.00 and -10 gives 0.
\<close>

theorem estimate_spectral_efficiency_intervals:
  assumes "g \<in> set (map entry_generation MODULATION_AND_CODING_LUT)"
  shows "(\<forall>(lower, upper) \<in>
             set (pairwise (filter (\<lambda>e. entry_generation e = g) MODULATION_AND_CODING_LUT)).
            entry_sinr lower \<le> s \<and> s < entry_sinr upper \<longrightarrow>
            estimate_spectral_efficiency s g MODULATION_AND_CODING_LUT
              = Inr (Some (entry_spectral_efficiency lower)))
       \<and> (\<forall>e \<in> set (filter (\<lambda>e. entry_generation e = g) MODULATION_AND_CODING_LUT).
            (\<forall>e' \<in> set (filter (\<lambda>e. entry_generation e = g) MODULATION_AND_CODING_LUT).
               entry_sinr e' \<le> entry_sinr e) \<longrightarrow>
            entry_sinr e \<le> s \<longrightarrow>
            estimate_spectral_efficiency s g MODULATION_AND_CODING_LUT
              = Inr (Some (entry_spectral_efficiency e)))
       \<and> ((\<forall>e \<in> set (filter (\<lambda>e. entry_generation e = g) MODULATION_AND_CODING_LUT).
             s < entry_sinr e) \<longrightarrow>
            estimate_spectral_efficiency s g MODULATION_AND_CODING_LUT = Inr (Some 0))
       \<and> estimate_spectral_efficiency 0 ''5G'' MODULATION_AND_CODING_LUT = Inr (Some 4.42)
       \<and> estimate_spectral_efficiency 100 ''5G'' MODULATION_AND_CODING_LUT = Inr (Some 50)
       \<and> estimate_spectral_efficiency (-10) ''5G'' MODULATION_AND_CODING_LUT = Inr (Some 0)"
proof -
  from assms have "g = ''4G'' \<or> g = ''5G''"
    by (simp only: shipped_generations)
  then show ?thesis
  proof
    assume g: "g = ''4G''"
    show ?thesis
      unfolding g spectral_efficiency_4G spectral_efficiency_5G
      by (simp add: MODULATION_AND_CODING_LUT_def pairwise_def entry_generation_def
            entry_sinr_def entry_spectral_efficiency_def)
  next
    assume g: "g = ''5G''"
    show ?thesis
      unfolding g spectral_efficiency_5G
      by (simp add: MODULATION_AND_CODING_LUT_def pairwise_def entry_generation_def
            entry_sinr_def entry_spectral_efficiency_def)
  qed
qed

theorem estimate_spectral_efficiency_intervals_witness:
  "''5G'' \<in> set (map entry_generation MODULATION_AND_CODING_LUT)
   \<and> ((''5G'', ''8x8'', 3, ''QPSK'', 449, 4.42, -2.3),
       (''5G'', ''8x8'', 4, ''16QAM'', 378, 6.40, 0.2))
        \<in> set (pairwise (filter (\<lambda>e. entry_generation e = ''5G'') MODULATION_AND_CODING_LUT))
   \<and> estimate_spectral_efficiency 0 ''5G'' MODULATION_AND_CODING_LUT
        = Inr (Some (entry_spectral_efficiency (''5G'', ''8x8'', 3, ''QPSK'', 449, 4.42, -2.3)))"
proof -
  have h: "''5G'' \<in> set (map entry_generation MODULATION_AND_CODING_LUT)"
    by (subst shipped_generations) simp
  have m: "((''5G'', ''8x8'', 3, ''QPSK'', 449, 4.42, -2.3),
            (''5G'', ''8x8'', 4, ''16QAM'', 378, 6.40, 0.2))
        \<in> set (pairwise (filter (\<lambda>e. entry_generation e = ''5G'') MODULATION_AND_CODING_LUT))"
    by (simp add: MODULATION_AND_CODING_LUT_def pairwise_def entry_generation_def)
  from estimate_spectral_efficiency_intervals [OF h, of 0]
  have "\<forall>(lower, upper) \<in>
           set (pairwise (filter (\<lambda>e. entry_generation e = ''5G'') MODULATION_AND_CODING_LUT)).
          entry_sinr lower \<le> 0 \<and> 0 < entry_sinr upper \<longrightarrow>
          estimate_spectral_efficiency 0 ''5G'' MODULATION_AND_CODING_LUT
            = Inr (Some (entry_spectral_efficiency lower))"
    by (rule conjunct1)
  from bspec [OF this m]
  have "estimate_spectral_efficiency 0 ''5G'' MODULATION_AND_CODING_LUT
        = Inr (Some (entry_spectral_efficiency (''5G'', ''8x8'', 3, ''QPSK'', 449, 4.42, -2.3)))"
    by (simp add: entry_sinr_def)
  with h m show ?thesis by blast
qed

text \<open>
  Claim C9. For every generation of the shipped table and all SINR values
  \<open>s1 \<le> s2\<close>, the lookup returns a spectral efficiency for both, and the one for
  \<open>s1\<close> is at most the one for \<open>s2\<close>.
\<close>

theorem estimate_spectral_efficiency_monotone:
  assumes "g \<in> set (map entry_generation MODULATION_AND_CODING_LUT)" and "s1 \<le> s2"
  shows "\<exists>v1 v2. estimate_spectral_efficiency s1 g MODULATION_AND_CODING_LUT = Inr (Some v1)
              \<and> estimate_spectral_efficiency s2 g MODULATION_AND_CODING_LUT = Inr (Some v2)
              \<and> v1 \<le> v2"
proof -
  from assms(1) have "g = ''4G'' \<or> g = ''5G''"
    by (simp only: shipped_generations)
  then show ?thesis
  proof
    assume g: "g = ''4G''"
    from assms(2) show ?thesis
      unfolding g spectral_efficiency_4G by simp
  next
    assume g: "g = ''5G''"
    from assms(2) show ?thesis
      unfolding g spectral_efficiency_5G by simp
  qed
qed

theorem estimate_spectral_efficiency_monotone_witness:
  "''4G'' \<in> set (map entry_generation MODULATION_AND_CODING_LUT) \<and> (0::real) \<le> 3
   \<and> (\<exists>v1 v2. estimate_spectral_efficiency 0 ''4G'' MODULATION_AND_CODING_LUT = Inr (Some v1)
              \<and> estimate_spectral_efficiency 3 ''4G'' MODULATION_AND_CODING_LUT = Inr (Some v2)
              \<and> v1 \<le> v2)"
proof -
  have h: "''4G'' \<in> set (map entry_generation MODULATION_AND_CODING_LUT)"
    by (subst shipped_generations) simp
  have le: "(0::real) \<le> 3" by simp
  from estimate_spectral_efficiency_monotone [OF h le] h le show ?thesis by blast
qed

section \<open>A generation without a pair in the table\<close>

text \<open>
  Claim C6 fails on the code. The shipped table has no entry tagged 6G, so no
  consecutive pair matches that generation, and the lookup for 6G raises nothing: the
  loop ends, the function falls off its end and returns \<^verbatim>\<open>None\<close> (the local
  initialised to 0.1 is never returned, and the docstring promises a float). And on a
  table of one 4G entry followed by one 5G entry there is no pair of 5G entries either,
  yet the lookup for 5G at an SINR of -5 passes the guard on the upper tag alone and
  returns the 4G entry's spectral efficiency, again without an error.
\<close>

theorem estimate_spectral_efficiency_unmatched_silent:
  "filter (\<lambda>e. entry_generation e = ''6G'') MODULATION_AND_CODING_LUT = []
   \<and> estimate_spectral_efficiency 0 ''6G'' MODULATION_AND_CODING_LUT = Inr None
   \<and> pairwise (filter (\<lambda>e. entry_generation e = ''5G'')
        [(''4G'', ''1x1'', 1, ''QPSK'', 78, 0.1523, -6.7),
         (''5G'', ''8x8'', 2, ''QPSK'', 193, 2.05, -4.7)]) = []
   \<and> estimate_spectral_efficiency (-5) ''5G''
        [(''4G'', ''1x1'', 1, ''QPSK'', 78, 0.1523, -6.7),
         (''5G'', ''8x8'', 2, ''QPSK'', 193, 2.05, -4.7)] = Inr (Some 0.1523)"
  by (simp add: lut_simps)

section \<open>Noise\<close>

lemma log10_eq_iff:
  fixes a b :: real
  assumes "0 < a" and "0 < b"
  shows "log 10 a = log 10 b \<longleftrightarrow> a = b"
proof
  assume "log 10 a = log 10 b"
  then have "10 powr log 10 a = 10 powr log 10 b"
    by simp
  with assms show "a = b"
    by simp
next
  assume "a = b"
  then show "log 10 a = log 10 b"
    by simp
qed

text \<open>
  Claim C8 as stated fails: the source's Boltzmann constant is 1.38e-23, not
  1.380649e-23, so already for a bandwidth of 1 MHz the returned noise is not the value
  of the claim's formula.
\<close>

theorem estimate_noise_counterexample:
  "estimate_noise 1
     \<noteq> 10 * log 10 (1.380649 / 10 ^ 23 * 290 * 1000) + 1.5 + 10 * log 10 (1 * 10 ^ 6)"
  by (simp add: estimate_noise_def Let_def log10_eq_iff)

text \<open>
  Claim C8, amended. For every bandwidth \<open>B\<close> in MHz, \<^verbatim>\<open>estimate_noise\<close> returns
  \<open>10 log10 (k T 1000) + NF + 10 log10 (B 10^6)\<close> with \<open>k\<close> = 1.38e-23, \<open>T\<close> = 290
  and \<open>NF\<close> = 1.5.
\<close>

theorem estimate_noise_formula:
  "estimate_noise B
     = 10 * log 10 (1.38 / 10 ^ 23 * 290 * 1000) + 1.5 + 10 * log 10 (B * 10 ^ 6)"
  by (simp add: estimate_noise_def Let_def)

section \<open>SINR\<close>

lemma round2_of_int: "round2 (of_int n) = of_int n"
  by (simp add: round2_def round_half_even_def Let_def)

text \<open>
  What rounding to two decimal places means, without reference to how it is computed:
  the result is a whole number of hundredths, and it is within half a hundredth of the
  argument.
\<close>

lemma round_half_even_close: "\<bar>of_int (round_half_even y) - y\<bar> \<le> 1 / 2"
proof -
  have "of_int \<lfloor>y\<rfloor> \<le> y" and "y < of_int \<lfloor>y\<rfloor> + 1"
    by linarith+
  then show ?thesis
    by (auto simp: round_half_even_def Let_def)
qed

lemma round2_characterised:
  "(\<exists>n::int. round2 x = of_int n / 100) \<and> \<bar>round2 x - x\<bar> \<le> 1 / 200"
proof
  show "\<exists>n::int. round2 x = of_int n / 100"
    by (auto simp: round2_def)
  have "\<bar>of_int (round_half_even (x * 100)) - x * 100\<bar> \<le> 1 / 2"
    by (rule round_half_even_close)
  then show "\<bar>round2 x - x\<bar> \<le> 1 / 200"
    by (simp add: round2_def field_simps)
qed

lemma log10_pow10: "log 10 (10000000000::real) = 10"
proof -
  have "log 10 ((10::real) ^ 10) = real 10"
    by (rule log_pow_cancel) simp_all
  then show ?thesis by simp
qed

lemma interference_list_loop_map:
  "interference_list_loop xs acc = acc @ map (\<lambda>v. 10 powr v) xs"
  by (induction xs arbitrary: acc) auto

text \<open>
  Claim C3 as stated fails for each of the three conversions. With the shipped
  parameters (network load 50): one interferer at 10 gives a scaled interference sum of
  \<open>10^10 / 2\<close>, not \<open>10^(10/10) / 2\<close>; a noise of 10 without interferers gives an
  interference-plus-noise of \<open>10^10\<close>, not \<open>10^(10/10)\<close>; and a received power of 10
  over a noise of 0 gives the SINR 10, not 1.
\<close>

theorem estimate_sinr_conversion_counterexample:
  "fst (snd (estimate_sinr 0 [10] 0 PARAMETERS))
      \<noteq> sum_list (take 3 (rev (sort (map (\<lambda>v. 10 powr (v / 10)) [10]))))
          * (network_load PARAMETERS / 100)
   \<and> fst (snd (snd (snd (estimate_sinr 0 [] 10 PARAMETERS)))) \<noteq> 0 + 10 powr (10 / 10)
   \<and> snd (snd (snd (snd (estimate_sinr 10 [] 0 PARAMETERS))))
      \<noteq> round2 (log 10 (10 powr (10 / 10) / (0 + 10 powr (0 / 10))))"
proof -
  have a: "fst (snd (estimate_sinr 0 [10] 0 PARAMETERS)) = 5000000000"
    by (simp add: estimate_sinr_def Let_def PARAMETERS_def)
  have a': "sum_list (take 3 (rev (sort (map (\<lambda>v. 10 powr (v / 10)) [10::real]))))
              * (network_load PARAMETERS / 100) = 5"
    by (simp add: PARAMETERS_def)
  have b: "fst (snd (snd (snd (estimate_sinr 0 [] 10 PARAMETERS)))) = 10000000000"
    by (simp add: estimate_sinr_def Let_def PARAMETERS_def)
  have c: "snd (snd (snd (snd (estimate_sinr 10 [] 0 PARAMETERS)))) = 10"
    using round2_of_int [of 10] by (simp add: estimate_sinr_def Let_def log10_pow10)
  have c': "round2 (log 10 (10 powr (10 / 10) / (0 + 10 powr (0 / 10)))) = 1"
    using round2_of_int [of 1] by simp
  show ?thesis unfolding a a' b c c' by simp
qed

text \<open>
  Claim C3, amended. In \<^verbatim>\<open>estimate_sinr\<close> the received power, each interferer's
  received power and the noise are each converted to a linear magnitude via
  \<open>10^value\<close> (the exponent is the value itself, not a tenth of it) before the ratio
  is formed.
\<close>

theorem estimate_sinr_conversion:
  "estimate_sinr received_power interference noise p =
    (let i = sum_list (take 3 (rev (sort (map (\<lambda>v. 10 powr v) interference))))
               * (network_load p / 100)
     in (received_power, i, noise, i + 10 powr noise,
         round2 (log 10 (10 powr received_power / (i + 10 powr noise)))))"
  by (simp add: estimate_sinr_def Let_def interference_list_loop_map)

subsection \<open>The three strongest interferers\<close>

lemma sort_map_mono:
  fixes f :: "'a::linorder \<Rightarrow> 'b::linorder"
  assumes "mono f"
  shows "sort (map f xs) = map f (sort xs)"
proof (rule properties_for_sort)
  show "mset (map f (sort xs)) = mset (map f xs)"
    by simp
  have "sorted_wrt (\<lambda>x y. f x \<le> f y) (sort xs)"
    by (rule sorted_wrt_mono_rel [of _ "(\<le>)"]) (use assms in \<open>auto dest: monoD\<close>)
  then show "sorted (map f (sort xs))"
    by (simp add: sorted_map)
qed

text \<open>
  The \<open>k\<close> largest elements of a list, in descending order, stay the same when some of
  the other elements are dropped from the list.
\<close>

lemma top_k_invariant:
  fixes xs ys :: "'a::linorder list"
  assumes sub: "mset ys \<subseteq># mset xs"
    and top: "mset (take k (rev (sort xs))) \<subseteq># mset ys"
  shows "take k (rev (sort ys)) = take k (rev (sort xs))"
proof -
  define S where "S = sort xs"
  define m where "m = length S - k"
  define A where "A = drop m S"
  define B where "B = take m S"
  have SAB: "S = B @ A"
    by (simp add: A_def B_def)
  have takeA: "take k (rev S) = rev A"
    by (simp add: A_def m_def take_rev)
  have "sorted S"
    by (simp add: S_def)
  with SAB have sA: "sorted A" and le: "\<forall>b\<in>set B. \<forall>a\<in>set A. b \<le> a"
    by (auto simp: sorted_append)
  have msxs: "mset xs = mset B + mset A"
    using SAB by (metis S_def mset_append mset_sort)
  from top takeA have "mset A \<subseteq># mset ys"
    by (simp add: S_def)
  then obtain R where R: "mset ys = mset A + R"
    by (auto simp: mset_subset_eq_exists_conv)
  from sub R msxs have RB: "R \<subseteq># mset B"
    by (simp add: add.commute)
  obtain Rl where Rl: "mset Rl = R"
    using ex_mset by blast
  have "sort ys = sort Rl @ A"
  proof (rule properties_for_sort)
    show "mset (sort Rl @ A) = mset ys"
      by (simp add: R Rl)
    have "set Rl \<subseteq> set B"
      using RB Rl by (metis set_mset_mono set_mset_mset)
    with le sA show "sorted (sort Rl @ A)"
      by (auto simp: sorted_append)
  qed
  then have rs: "rev (sort ys) = rev A @ rev (sort Rl)"
    by simp
  show ?thesis
  proof (cases "k \<le> length S")
    case True
    then have "length A = k"
      by (simp add: A_def m_def)
    then show ?thesis
      unfolding rs takeA [unfolded S_def] by simp
  next
    case False
    then have "B = []"
      by (simp add: B_def m_def)
    with RB Rl have "Rl = []"
      by simp
    moreover from False have "length A \<le> k"
      by (simp add: A_def)
    ultimately show ?thesis
      unfolding rs takeA [unfolded S_def] by simp
  qed
qed

lemma mono_powr10: "mono (\<lambda>v::real. 10 powr v)"
  by (simp add: mono_def)

lemma linear_top3:
  "take 3 (rev (sort (map (\<lambda>v::real. 10 powr v) xs)))
     = map (\<lambda>v. 10 powr v) (take 3 (rev (sort xs)))"
  by (simp add: sort_map_mono [OF mono_powr10] rev_map take_map)

text \<open>
  Claim C5. With \<open>linear\<close> the linear magnitudes of the interference list and \<open>top\<close>
  what \<^verbatim>\<open>estimate_sinr\<close> retains of them: \<open>top\<close> is in descending order, has 3
  elements (all of them when there are fewer), is taken from \<open>linear\<close>, and every
  magnitude left out is at most every magnitude retained; the returned interference sum
  is the sum of \<open>top\<close> scaled by \<open>network_load / 100\<close>, the returned
  interference-plus-noise adds the linear noise, and the returned SINR is \<open>log10\<close> of
  the linear received power over it, rounded to 2 decimal places: a whole number of
  hundredths, within half a hundredth of that logarithm. Consequently a list
  \<open>kept\<close> that is the input without some interferers other than the three strongest
  gives the same result.
\<close>

theorem estimate_sinr_three_strongest:
  "(let linear = map (\<lambda>v. 10 powr v) interference;
        top = take 3 (rev (sort linear));
        raw_sum = sum_list top * (network_load p / 100);
        i_plus_n = raw_sum + 10 powr noise
    in sorted (rev top) \<and> length top = min 3 (length interference)
       \<and> mset top \<subseteq># mset linear
       \<and> (\<forall>a \<in> set top. \<forall>b \<in># mset linear - mset top. b \<le> a)
       \<and> estimate_sinr received_power interference noise p
           = (received_power, raw_sum, noise, i_plus_n,
              round2 (log 10 (10 powr received_power / i_plus_n)))
       \<and> (\<exists>n::int. snd (snd (snd (snd (estimate_sinr received_power interference noise p))))
                       = of_int n / 100)
       \<and> \<bar>snd (snd (snd (snd (estimate_sinr received_power interference noise p))))
            - log 10 (10 powr received_power / i_plus_n)\<bar> \<le> 1 / 200)
   \<and> (mset kept \<subseteq># mset interference \<and>
      mset (take 3 (rev (sort interference))) \<subseteq># mset kept \<longrightarrow>
        estimate_sinr received_power kept noise p
          = estimate_sinr received_power interference noise p)"
proof -
  define linear where "linear = map (\<lambda>v. 10 powr v) interference"
  define S where "S = sort linear"
  define top where "top = take 3 (rev S)"
  have top_drop: "rev top = drop (length S - 3) S"
    by (simp add: top_def rev_take)
  have sS: "sorted S"
    by (simp add: S_def)
  have S_split: "S = take (length S - 3) S @ rev top"
    by (simp add: top_drop)
  have 1: "sorted (rev top)"
    unfolding top_drop using sS by (rule sorted_wrt_drop)
  have 2: "length top = min 3 (length interference)"
    by (simp add: top_def S_def linear_def)
  have ms: "mset linear = mset (take (length S - 3) S) + mset top"
    using S_split by (metis S_def mset_append mset_rev mset_sort)
  have 3: "mset top \<subseteq># mset linear"
    by (simp add: ms)
  have 4: "\<forall>a \<in> set top. \<forall>b \<in># mset linear - mset top. b \<le> a"
  proof -
    from sS S_split have "\<forall>b\<in>set (take (length S - 3) S). \<forall>a\<in>set (rev top). b \<le> a"
      by (metis sorted_append)
    then show ?thesis
      by (simp add: ms)
  qed
  have 5: "estimate_sinr received_power interference noise p
           = (received_power, sum_list top * (network_load p / 100), noise,
              sum_list top * (network_load p / 100) + 10 powr noise,
              round2 (log 10 (10 powr received_power /
                 (sum_list top * (network_load p / 100) + 10 powr noise))))"
    by (simp add: estimate_sinr_def Let_def interference_list_loop_map top_def S_def linear_def)
  have 6: "estimate_sinr received_power kept noise p
          = estimate_sinr received_power interference noise p"
    if "mset kept \<subseteq># mset interference"
      and "mset (take 3 (rev (sort interference))) \<subseteq># mset kept"
  proof -
    from that have "take 3 (rev (sort kept)) = take 3 (rev (sort interference))"
      by (rule top_k_invariant)
    then show ?thesis
      by (simp add: estimate_sinr_def Let_def interference_list_loop_map linear_top3)
  qed
  have 7: "(\<exists>n::int. snd (snd (snd (snd (estimate_sinr received_power interference noise p))))
                       = of_int n / 100)
       \<and> \<bar>snd (snd (snd (snd (estimate_sinr received_power interference noise p))))
            - log 10 (10 powr received_power /
                 (sum_list top * (network_load p / 100) + 10 powr noise))\<bar> \<le> 1 / 200"
    unfolding 5 using round2_characterised by simp
  from 1 2 3 4 5 6 7 show ?thesis
    unfolding Let_def top_def S_def linear_def by blast
qed

theorem estimate_sinr_three_strongest_witness:
  "mset [1, 3, 2] \<subseteq># mset [1, 0, 3, 2 :: real]
   \<and> mset (take 3 (rev (sort [1, 0, 3, 2 :: real]))) \<subseteq># mset [1, 3, 2]
   \<and> estimate_sinr 5 [1, 3, 2] 0 PARAMETERS = estimate_sinr 5 [1, 0, 3, 2] 0 PARAMETERS"
proof -
  have a: "mset [1, 3, 2] \<subseteq># mset [1, 0, 3, 2 :: real]"
    by simp
  have b: "mset (take 3 (rev (sort [1, 0, 3, 2 :: real]))) \<subseteq># mset [1, 3, 2]"
    by simp
  from estimate_sinr_three_strongest [of "[1, 0, 3, 2]" PARAMETERS 0 5 "[1, 3, 2]"] a b
  show ?thesis
    by blast
qed

section \<open>Distances and the received power\<close>

lemma sqrt_25: "sqrt 25 = 5"
  by (rule real_sqrt_unique) simp_all

lemma strt_distance_at_least_20: "20 \<le> strt_distance self receiver"
  by (simp add: strt_distance_def Let_def)

text \<open>The serving path: the distance handed to the collaborator is at least 20.\<close>

lemma path_loss_call_distance:
  "20 \<le> pl_distance (path_loss_call_args self receiver frequency environment p height)"
  by (simp add: path_loss_call_args_def strt_distance_at_least_20)

lemma estimate_received_power_Inr:
  assumes "estimate_received_power self t receiver pl = Inr v"
  shows "\<exists>pw g l. power (transmitter self) = Some pw \<and> gain (transmitter self) = Some g
           \<and> losses (transmitter self) = Some l
           \<and> v = (pw + g - l) - pl - misc_losses receiver + rx_gain receiver
                   - rx_losses receiver"
  using assms by (auto simp: estimate_received_power_def split: option.splits)

text \<open>
  What a successful run of the loop appends: one received power per interfering
  transmitter, each from the path loss that the collaborator returned for it.
\<close>

lemma estimate_interference_loop_shape:
  assumes "estimate_interference_loop plc self receiver frequency environment p its
             (ai, am, ad, apl) = Inr (i, m, d, a)"
  shows "\<exists>vs. i = ai @ vs \<and>
     list_all2 (\<lambda>it v. \<exists>h pl mo. ant_height it = Some h
        \<and> plc (interference_call_args receiver frequency environment p it h) = Inr (pl, mo)
        \<and> estimate_received_power self it receiver pl = Inr v) its vs"
  using assms
proof (induction its arbitrary: ai am ad apl)
  case Nil
  then show ?case by simp
next
  case (Cons it its)
  from Cons.prems obtain h pl mo v where
    h: "ant_height it = Some h"
    and c: "plc (interference_call_args receiver frequency environment p it h) = Inr (pl, mo)"
    and r: "estimate_received_power self it receiver pl = Inr v"
    and rest: "estimate_interference_loop plc self receiver frequency environment p its
       (ai @ [v], Some mo, ad + interference_strt_distance receiver it, apl + pl)
         = Inr (i, m, d, a)"
    by (auto split: option.splits sum.splits)
  from Cons.IH [OF rest] obtain vs where vs: "i = (ai @ [v]) @ vs"
    and all: "list_all2 (\<lambda>it v. \<exists>h pl mo. ant_height it = Some h
        \<and> plc (interference_call_args receiver frequency environment p it h) = Inr (pl, mo)
        \<and> estimate_received_power self it receiver pl = Inr v) its vs"
    by blast
  from h c r all have "list_all2 (\<lambda>it v. \<exists>h pl mo. ant_height it = Some h
        \<and> plc (interference_call_args receiver frequency environment p it h) = Inr (pl, mo)
        \<and> estimate_received_power self it receiver pl = Inr v) (it # its) (v # vs)"
    by auto
  with vs show ?case
    by (intro exI [of _ "v # vs"]) simp
qed

lemma estimate_interference_shape:
  assumes "estimate_interference plc self receiver frequency environment p = Inr (i, m, d, a)"
  shows "list_all2 (\<lambda>it v. \<exists>h pl mo. ant_height it = Some h
        \<and> plc (interference_call_args receiver frequency environment p it h) = Inr (pl, mo)
        \<and> estimate_received_power self it receiver pl = Inr v)
        (dict_values (interfering_transmitters self)) i"
proof -
  from assms obtain m' d' a' where
    "estimate_interference_loop plc self receiver frequency environment p
       (dict_values (interfering_transmitters self)) ([], None, 0, 0) = Inr (i, m', d', a')"
    by (auto simp: estimate_interference_def split: sum.splits if_splits option.splits)
  from estimate_interference_loop_shape [OF this] show ?thesis
    by simp
qed

subsection \<open>What the constructor builds\<close>

lemma dict_set_values:
  "set (map snd (dict_set k v d)) \<subseteq> insert v (set (map snd d))"
  by (induction k v d rule: dict_set.induct) auto

lemma foldl_dict_set_values:
  "set (map snd (foldl (\<lambda>d x. dict_set (key x) (mk x) d) d0 xs))
     \<subseteq> set (map snd d0) \<union> mk ` set xs"
proof (induction xs arbitrary: d0)
  case Nil
  then show ?case by simp
next
  case (Cons x xs)
  have "set (map snd (foldl (\<lambda>d x. dict_set (key x) (mk x) d) (dict_set (key x) (mk x) d0) xs))
        \<subseteq> set (map snd (dict_set (key x) (mk x) d0)) \<union> mk ` set xs"
    by (rule Cons.IH)
  also have "\<dots> \<subseteq> insert (mk x) (set (map snd d0)) \<union> mk ` set xs"
    using dict_set_values [of "key x" "mk x" d0] by auto
  finally show ?case by auto
qed

lemma same_parameters:
  "ant_height (InterferingTransmitter d a p) = ant_height (Transmitter d' a p)
   \<and> power (InterferingTransmitter d a p) = power (Transmitter d' a p)
   \<and> gain (InterferingTransmitter d a p) = gain (Transmitter d' a p)
   \<and> losses (InterferingTransmitter d a p) = losses (Transmitter d' a p)"
  by (simp add: InterferingTransmitter_def Transmitter_def Let_def)

text \<open>
  Every interfering transmitter of a constructed manager has the power, gain and
  losses of the serving transmitter: all are built from one antenna type and one
  parameter dict.
\<close>

lemma constructed_interferers:
  assumes "SimulationManager txs its a rxs sas p0 = Inr self"
    and "it \<in> set (dict_values (interfering_transmitters self))"
  shows "power it = power (transmitter self) \<and> gain it = gain (transmitter self)
         \<and> losses it = losses (transmitter self)"
proof -
  from assms(1) obtain t0 ts a0 as' where txs: "txs = t0 # ts" and sas: "sas = a0 # as'"
    and self: "self = \<lparr>transmitter = Transmitter t0 a p0,
                 interfering_transmitters =
                   foldl (\<lambda>d it. dict_set (site_id it) (InterferingTransmitter it a p0) d) [] its,
                 receivers = foldl (\<lambda>d r. dict_set (ue_id r) (Receiver r p0) d) [] rxs,
                 site_area = SiteArea a0\<rparr>"
    by (auto simp: SimulationManager_def split: list.splits)
  from assms(2) have "it \<in> (\<lambda>x. InterferingTransmitter x a p0) ` set its"
    using foldl_dict_set_values [of site_id "\<lambda>x. InterferingTransmitter x a p0" "[]" its]
    by (auto simp: self dict_values_def)
  then obtain x where "it = InterferingTransmitter x a p0"
    by blast
  then show ?thesis
    using same_parameters [of x a p0 t0] by (simp add: self)
qed

section \<open>Evaluations and the claims on the received power\<close>


lemma sqrt_2500: "sqrt 2500 = 50"
  by (rule real_sqrt_unique) simp_all

lemma sqrt_10000: "sqrt 10000 = 100"
  by (rule real_sqrt_unique) simp_all

lemmas eval_simps = SimulationManager_def Transmitter_def InterferingTransmitter_def Receiver_def
  SiteArea_def dict_values_def estimate_interference_def interference_call_args_def
  interference_strt_distance_def line_length_def estimate_received_power_def PARAMETERS_def
  Let_def

text \<open>
  Claim C2 fails on the interference path. A manager is built with one interfering
  site 5 m from the receiver; the collaborator is then called with the distance 5 (the
  probe returns it as the path loss, and the averages show it), not with 20. The
  serving path does clamp, see \<open>path_loss_call_distance\<close>.
\<close>

theorem estimate_interference_passes_short_distance:
  "(case SimulationManager [example_site] [\<lparr>site_id = ''site_1'', site_coordinates = (3, 4)\<rparr>]
           ''micro'' [example_receiver] [example_site_area] PARAMETERS of
      Inl e \<Rightarrow> Inl e
    | Inr self \<Rightarrow>
        estimate_interference distance_probe self (Receiver example_receiver PARAMETERS)
          3.3 ''urban'' PARAMETERS)
   = Inr ([28 - 5 - 4 + 4 - 4], ''probe'', 5, 5)"
  by (simp add: eval_simps sqrt_25)

lemma example_manager_built:
  "SimulationManager [example_site]
     [\<lparr>site_id = ''site_1'', site_coordinates = (30, 40)\<rparr>,
      \<lparr>site_id = ''site_2'', site_coordinates = (0, 100)\<rparr>]
     ''micro'' [example_receiver] [example_site_area] PARAMETERS = Inr example_manager"
  by (simp add: SimulationManager_def)

lemma example_manager_interference:
  "estimate_interference distance_probe example_manager (Receiver example_receiver PARAMETERS)
     3.3 ''urban'' PARAMETERS = Inr ([28 - 50 - 4 + 4 - 4, 28 - 100 - 4 + 4 - 4], ''probe'', 75, 75)"
  by (simp add: eval_simps sqrt_2500 sqrt_10000)

text \<open>
  Claim C10 as stated fails in its last clause: a transmitter with power 41, gain 15
  and losses 1 does not share the serving transmitter's parameter set (40, 16, 1), yet
  the received power computed for it is the one of its own EIRP, since both EIRPs are 55.
\<close>

theorem estimate_received_power_coincide_counterexample:
  "estimate_received_power
     \<lparr>transmitter = Transmitter example_site ''macro'' PARAMETERS,
      interfering_transmitters = [], receivers = [],
      site_area = SiteArea example_site_area\<rparr>
     \<lparr>tx_id = ''site_1'', tx_coordinates = (3, 4), ant_type = ''macro'', ant_height = Some 30,
      power = Some 41, gain = Some 15, losses = Some 1\<rparr>
     (Receiver example_receiver PARAMETERS) 100
    = Inr ((41 + 15 - 1) - 100 - 4 + 4 - 4)
   \<and> (Some 41, Some 15, Some 1)
       \<noteq> (power (Transmitter example_site ''macro'' PARAMETERS),
           gain (Transmitter example_site ''macro'' PARAMETERS),
           losses (Transmitter example_site ''macro'' PARAMETERS))"
  by (simp add: eval_simps)

text \<open>
  Claim C10, amended. \<^verbatim>\<open>estimate_received_power\<close> ignores its transmitter parameter:
  the result is the one for the serving transmitter, whose power, gain and losses make
  the EIRP; so each interferer's received power in \<^verbatim>\<open>estimate_interference\<close> combines
  the serving transmitter's power, gain and losses with that interferer's path loss.
  The result coincides with the one of a transmitter's own EIRP exactly when the two
  EIRPs (power + gain - losses) are equal.
\<close>

theorem estimate_received_power_ignores_transmitter:
  "estimate_received_power self t receiver path_loss
     = estimate_received_power self (transmitter self) receiver path_loss
   \<and> (power (transmitter self) = Some pw \<and> gain (transmitter self) = Some g
        \<and> losses (transmitter self) = Some l \<longrightarrow>
      estimate_received_power self t receiver path_loss
        = Inr ((pw + g - l) - path_loss - misc_losses receiver + rx_gain receiver
                 - rx_losses receiver)
      \<and> (estimate_received_power self t receiver path_loss
           = Inr ((pw' + g' - l') - path_loss - misc_losses receiver + rx_gain receiver
                    - rx_losses receiver)
         \<longleftrightarrow> pw' + g' - l' = pw + g - l))
   \<and> (estimate_interference plc self receiver frequency environment p
        = Inr (interference, model, ave_distance, ave_pl) \<longrightarrow>
      (\<exists>pw g l. power (transmitter self) = Some pw \<and> gain (transmitter self) = Some g
         \<and> losses (transmitter self) = Some l
         \<and> list_all2 (\<lambda>it v. \<exists>h pl mo. ant_height it = Some h
              \<and> plc (interference_call_args receiver frequency environment p it h) = Inr (pl, mo)
              \<and> v = (pw + g - l) - pl - misc_losses receiver + rx_gain receiver
                      - rx_losses receiver)
            (dict_values (interfering_transmitters self)) interference))"
proof -
  have 1: "estimate_received_power self t receiver path_loss
     = estimate_received_power self (transmitter self) receiver path_loss"
    by (simp add: estimate_received_power_def)
  have 2: "estimate_received_power self t receiver path_loss
        = Inr ((pw + g - l) - path_loss - misc_losses receiver + rx_gain receiver
                 - rx_losses receiver)
      \<and> (estimate_received_power self t receiver path_loss
           = Inr ((pw' + g' - l') - path_loss - misc_losses receiver + rx_gain receiver
                    - rx_losses receiver)
         \<longleftrightarrow> pw' + g' - l' = pw + g - l)"
    if "power (transmitter self) = Some pw \<and> gain (transmitter self) = Some g
        \<and> losses (transmitter self) = Some l"
    using that by (auto simp: estimate_received_power_def)
  have 3: "\<exists>pw g l. power (transmitter self) = Some pw \<and> gain (transmitter self) = Some g
         \<and> losses (transmitter self) = Some l
         \<and> list_all2 (\<lambda>it v. \<exists>h pl mo. ant_height it = Some h
              \<and> plc (interference_call_args receiver frequency environment p it h) = Inr (pl, mo)
              \<and> v = (pw + g - l) - pl - misc_losses receiver + rx_gain receiver
                      - rx_losses receiver)
            (dict_values (interfering_transmitters self)) interference"
    if run: "estimate_interference plc self receiver frequency environment p
        = Inr (interference, model, ave_distance, ave_pl)"
  proof -
    let ?its = "dict_values (interfering_transmitters self)"
    from run have ne: "?its \<noteq> []"
      by (auto simp: estimate_interference_def split: sum.splits if_splits)
    have shape: "list_all2 (\<lambda>it v. \<exists>h pl mo. ant_height it = Some h
        \<and> plc (interference_call_args receiver frequency environment p it h) = Inr (pl, mo)
        \<and> estimate_received_power self it receiver pl = Inr v) ?its interference"
      using run by (rule estimate_interference_shape)
    from ne shape obtain it0 v0 pl0 where "estimate_received_power self it0 receiver pl0 = Inr v0"
      by (cases ?its; cases interference) auto
    from estimate_received_power_Inr [OF this] obtain pw g l where
      s: "power (transmitter self) = Some pw" "gain (transmitter self) = Some g"
         "losses (transmitter self) = Some l"
      by blast
    have "list_all2 (\<lambda>it v. \<exists>h pl mo. ant_height it = Some h
              \<and> plc (interference_call_args receiver frequency environment p it h) = Inr (pl, mo)
              \<and> v = (pw + g - l) - pl - misc_losses receiver + rx_gain receiver
                      - rx_losses receiver) ?its interference"
      using shape
    proof (rule list_all2_mono)
      fix it v
      assume "\<exists>h pl mo. ant_height it = Some h
        \<and> plc (interference_call_args receiver frequency environment p it h) = Inr (pl, mo)
        \<and> estimate_received_power self it receiver pl = Inr v"
      then obtain h pl mo where a: "ant_height it = Some h"
        "plc (interference_call_args receiver frequency environment p it h) = Inr (pl, mo)"
        and r: "estimate_received_power self it receiver pl = Inr v"
        by blast
      from estimate_received_power_Inr [OF r] s
      have "v = (pw + g - l) - pl - misc_losses receiver + rx_gain receiver - rx_losses receiver"
        by auto
      with a show "\<exists>h pl mo. ant_height it = Some h
              \<and> plc (interference_call_args receiver frequency environment p it h) = Inr (pl, mo)
              \<and> v = (pw + g - l) - pl - misc_losses receiver + rx_gain receiver
                      - rx_losses receiver"
        by blast
    qed
    with s show ?thesis by blast
  qed
  from 1 2 3 show ?thesis by blast
qed

theorem estimate_received_power_ignores_transmitter_witness:
  "power (transmitter example_manager) = Some 24 \<and> gain (transmitter example_manager) = Some 5
   \<and> losses (transmitter example_manager) = Some 1
   \<and> estimate_received_power example_manager
        (InterferingTransmitter \<lparr>site_id = ''site_3'', site_coordinates = (0, 200)\<rparr> ''macro''
           PARAMETERS)
        (Receiver example_receiver PARAMETERS) 100
      = Inr ((24 + 5 - 1) - 100 - misc_losses (Receiver example_receiver PARAMETERS)
              + rx_gain (Receiver example_receiver PARAMETERS)
              - rx_losses (Receiver example_receiver PARAMETERS))
   \<and> estimate_interference distance_probe example_manager (Receiver example_receiver PARAMETERS)
       3.3 ''urban'' PARAMETERS
       = Inr ([28 - 50 - 4 + 4 - 4, 28 - 100 - 4 + 4 - 4], ''probe'', 75, 75)
   \<and> (\<exists>pw g l. power (transmitter example_manager) = Some pw
         \<and> gain (transmitter example_manager) = Some g
         \<and> losses (transmitter example_manager) = Some l
         \<and> list_all2 (\<lambda>it v. \<exists>h pl mo. ant_height it = Some h
              \<and> distance_probe (interference_call_args (Receiver example_receiver PARAMETERS)
                   3.3 ''urban'' PARAMETERS it h) = Inr (pl, mo)
              \<and> v = (pw + g - l) - pl - misc_losses (Receiver example_receiver PARAMETERS)
                      + rx_gain (Receiver example_receiver PARAMETERS)
                      - rx_losses (Receiver example_receiver PARAMETERS))
            (dict_values (interfering_transmitters example_manager))
            [28 - 50 - 4 + 4 - 4, 28 - 100 - 4 + 4 - 4])"
proof -
  have h: "power (transmitter example_manager) = Some 24
      \<and> gain (transmitter example_manager) = Some 5
      \<and> losses (transmitter example_manager) = Some 1"
    by (simp add: Transmitter_def PARAMETERS_def Let_def)
  from estimate_received_power_ignores_transmitter [where self = example_manager and pw = 24 and g = 5 and l = 1
      and plc = distance_probe and receiver = "Receiver example_receiver PARAMETERS"
      and frequency = "3.3" and environment = "''urban''" and p = PARAMETERS
      and interference = "[28 - 50 - 4 + 4 - 4, 28 - 100 - 4 + 4 - 4]"
      and model = "''probe''" and ave_distance = 75 and ave_pl = 75
      and path_loss = 100
      and t = "InterferingTransmitter \<lparr>site_id = ''site_3'', site_coordinates = (0, 200)\<rparr>
                 ''macro'' PARAMETERS"]
    h example_manager_interference
  show ?thesis
    by blast
qed

text \<open>
  Claim C4. For a manager built by the constructor, every interfering transmitter
  \<open>t\<close> and every receiver: the received interference power computed in
  \<^verbatim>\<open>estimate_interference\<close> is \<open>(t.power + t.gain - t.losses) - path_loss -
  r.misc_losses + r.gain - r.losses\<close>, with the path loss the collaborator returned
  for \<open>t\<close>. (The constructor gives every transmitter the serving transmitter's
  parameters, which is why reading the EIRP from the serving transmitter agrees.)
\<close>

theorem estimate_interference_received_power:
  assumes built: "SimulationManager txs its a rxs sas p0 = Inr self"
    and run: "estimate_interference plc self receiver frequency environment p
                = Inr (interference, model, ave_distance, ave_pl)"
  shows "list_all2 (\<lambda>t v. \<exists>h pw g l pl mo.
            ant_height t = Some h \<and> power t = Some pw \<and> gain t = Some g \<and> losses t = Some l
            \<and> plc (interference_call_args receiver frequency environment p t h) = Inr (pl, mo)
            \<and> v = (pw + g - l) - pl - misc_losses receiver + rx_gain receiver
                    - rx_losses receiver)
          (dict_values (interfering_transmitters self)) interference"
proof -
  let ?its = "dict_values (interfering_transmitters self)"
  have shape: "list_all2 (\<lambda>it v. \<exists>h pl mo. ant_height it = Some h
        \<and> plc (interference_call_args receiver frequency environment p it h) = Inr (pl, mo)
        \<and> estimate_received_power self it receiver pl = Inr v) ?its interference"
    using run by (rule estimate_interference_shape)
  show ?thesis
  proof (rule list.rel_mono_strong [OF shape])
    fix t v
    assume t: "t \<in> set ?its" and v: "v \<in> set interference"
      and "\<exists>h pl mo. ant_height t = Some h
        \<and> plc (interference_call_args receiver frequency environment p t h) = Inr (pl, mo)
        \<and> estimate_received_power self t receiver pl = Inr v"
    then obtain h pl mo where a: "ant_height t = Some h"
      "plc (interference_call_args receiver frequency environment p t h) = Inr (pl, mo)"
      and r: "estimate_received_power self t receiver pl = Inr v"
      by blast
    from estimate_received_power_Inr [OF r] obtain pw g l where
      s: "power (transmitter self) = Some pw" "gain (transmitter self) = Some g"
         "losses (transmitter self) = Some l"
      and veq: "v = (pw + g - l) - pl - misc_losses receiver + rx_gain receiver - rx_losses receiver"
      by blast
    from constructed_interferers [OF built t] s
    have "power t = Some pw" "gain t = Some g" "losses t = Some l"
      by simp_all
    with a veq show "\<exists>h pw g l pl mo.
            ant_height t = Some h \<and> power t = Some pw \<and> gain t = Some g \<and> losses t = Some l
            \<and> plc (interference_call_args receiver frequency environment p t h) = Inr (pl, mo)
            \<and> v = (pw + g - l) - pl - misc_losses receiver + rx_gain receiver
                    - rx_losses receiver"
      by blast
  qed
qed


theorem estimate_interference_received_power_witness:
  "SimulationManager [example_site]
     [\<lparr>site_id = ''site_1'', site_coordinates = (30, 40)\<rparr>,
      \<lparr>site_id = ''site_2'', site_coordinates = (0, 100)\<rparr>]
     ''micro'' [example_receiver] [example_site_area] PARAMETERS = Inr example_manager
   \<and> estimate_interference distance_probe example_manager (Receiver example_receiver PARAMETERS)
       3.3 ''urban'' PARAMETERS
       = Inr ([28 - 50 - 4 + 4 - 4, 28 - 100 - 4 + 4 - 4], ''probe'', 75, 75)
   \<and> list_all2 (\<lambda>t v. \<exists>h pw g l pl mo.
            ant_height t = Some h \<and> power t = Some pw \<and> gain t = Some g \<and> losses t = Some l
            \<and> distance_probe (interference_call_args (Receiver example_receiver PARAMETERS)
                 3.3 ''urban'' PARAMETERS t h) = Inr (pl, mo)
            \<and> v = (pw + g - l) - pl - misc_losses (Receiver example_receiver PARAMETERS)
                    + rx_gain (Receiver example_receiver PARAMETERS)
                    - rx_losses (Receiver example_receiver PARAMETERS))
          (dict_values (interfering_transmitters example_manager))
          [28 - 50 - 4 + 4 - 4, 28 - 100 - 4 + 4 - 4]"
  using estimate_interference_received_power [OF example_manager_built example_manager_interference]
    example_manager_built example_manager_interference
  by blast

section \<open>A manager without interfering transmitters\<close>










end
